theory Spec2Isabelle
  imports Complex_Main
begin

section \<open>Numeric values\<close>

text \<open>
  The program computes on numpy floats. The model keeps the special values that steer its
  control flow (NaN marks a missing observation, the infinities come from a division by
  zero or from the logarithm of zero) and takes every finite value as an exact real:
  rounding error and overflow of finite values are outside the model, and the two
  signed zeros are one value. Integers (molecule counts, indices) are unbounded.
\<close>

datatype fl = Fin real | PInf | NInf | NaN

datatype py_error = IndexError | ValueError | OverflowError

fun fl_isnan :: "fl \<Rightarrow> bool" where
  "fl_isnan NaN = True"
| "fl_isnan _ = False"

fun fl_neg :: "fl \<Rightarrow> fl" where
  "fl_neg (Fin a) = Fin (- a)"
| "fl_neg PInf = NInf"
| "fl_neg NInf = PInf"
| "fl_neg NaN = NaN"

fun fl_add :: "fl \<Rightarrow> fl \<Rightarrow> fl" where
  "fl_add NaN _ = NaN"
| "fl_add _ NaN = NaN"
| "fl_add (Fin a) (Fin b) = Fin (a + b)"
| "fl_add PInf NInf = NaN"
| "fl_add NInf PInf = NaN"
| "fl_add PInf _ = PInf"
| "fl_add _ PInf = PInf"
| "fl_add NInf _ = NInf"
| "fl_add _ NInf = NInf"

definition fl_sub :: "fl \<Rightarrow> fl \<Rightarrow> fl" where
  "fl_sub a b = fl_add a (fl_neg b)"

text \<open>The product of an infinity with a finite factor: the sign decides, zero gives NaN.\<close>

definition inf_times :: "bool \<Rightarrow> real \<Rightarrow> fl" where
  "inf_times pos a = (if a = 0 then NaN else if (0 < a) = pos then PInf else NInf)"

fun fl_mul :: "fl \<Rightarrow> fl \<Rightarrow> fl" where
  "fl_mul NaN _ = NaN"
| "fl_mul _ NaN = NaN"
| "fl_mul (Fin a) (Fin b) = Fin (a * b)"
| "fl_mul (Fin a) PInf = inf_times True a"
| "fl_mul (Fin a) NInf = inf_times False a"
| "fl_mul PInf (Fin b) = inf_times True b"
| "fl_mul NInf (Fin b) = inf_times False b"
| "fl_mul PInf PInf = PInf"
| "fl_mul NInf NInf = PInf"
| "fl_mul PInf NInf = NInf"
| "fl_mul NInf PInf = NInf"

text \<open>numpy division: a finite value over zero is an infinity, zero over zero is NaN.\<close>

fun fl_div :: "fl \<Rightarrow> fl \<Rightarrow> fl" where
  "fl_div NaN _ = NaN"
| "fl_div _ NaN = NaN"
| "fl_div (Fin a) (Fin b) =
     (if b = 0 then (if a = 0 then NaN else if 0 < a then PInf else NInf) else Fin (a / b))"
| "fl_div (Fin a) _ = Fin 0"
| "fl_div PInf (Fin b) = (if 0 \<le> b then PInf else NInf)"
| "fl_div NInf (Fin b) = (if 0 \<le> b then NInf else PInf)"
| "fl_div _ _ = NaN"

text \<open>Comparisons: every comparison with NaN is false.\<close>

fun fl_lt :: "fl \<Rightarrow> fl \<Rightarrow> bool" where
  "fl_lt NaN _ = False"
| "fl_lt _ NaN = False"
| "fl_lt (Fin a) (Fin b) = (a < b)"
| "fl_lt _ NInf = False"
| "fl_lt PInf _ = False"
| "fl_lt _ _ = True"

fun fl_le :: "fl \<Rightarrow> fl \<Rightarrow> bool" where
  "fl_le NaN _ = False"
| "fl_le _ NaN = False"
| "fl_le (Fin a) (Fin b) = (a \<le> b)"
| "fl_le NInf _ = True"
| "fl_le _ PInf = True"
| "fl_le _ _ = False"

definition fl_gt :: "fl \<Rightarrow> fl \<Rightarrow> bool" where
  "fl_gt a b = fl_lt b a"

definition fl_ge :: "fl \<Rightarrow> fl \<Rightarrow> bool" where
  "fl_ge a b = fl_le b a"

text \<open>A float raised to an integer exponent (\<open>x ** n\<close>); \<open>0 ** -1\<close> is infinity.\<close>

fun fl_powi :: "fl \<Rightarrow> int \<Rightarrow> fl" where
  "fl_powi (Fin x) n =
     (if 0 \<le> n then Fin (x ^ nat n)
      else if x = 0 then PInf else Fin (1 / x ^ nat (- n)))"
| "fl_powi PInf n = (if 0 < n then PInf else if n = 0 then Fin 1 else Fin 0)"
| "fl_powi NInf n =
     (if 0 < n then (if even n then PInf else NInf) else if n = 0 then Fin 1 else Fin 0)"
| "fl_powi NaN n = (if n = 0 then Fin 1 else NaN)"

fun fl_log :: "fl \<Rightarrow> fl" where
  "fl_log (Fin x) = (if 0 < x then Fin (ln x) else if x = 0 then NInf else NaN)"
| "fl_log PInf = PInf"
| "fl_log NInf = NaN"
| "fl_log NaN = NaN"

text \<open>\<open>np.max\<close> of a two-element list: NaN if either element is NaN.\<close>

definition np_max2 :: "fl \<Rightarrow> fl \<Rightarrow> fl" where
  "np_max2 a b = (if fl_isnan a \<or> fl_isnan b then NaN else if fl_lt a b then b else a)"

text \<open>\<open>np.sum\<close> of an array, 0 for the empty array.\<close>

definition np_sum :: "fl list \<Rightarrow> fl" where
  "np_sum xs = foldl fl_add (Fin 0) xs"

text \<open>\<open>np.int\<close> is Python's \<open>int\<close>: truncation toward zero, an exception on NaN and
  on the infinities.\<close>

fun np_int :: "fl \<Rightarrow> py_error + int" where
  "np_int (Fin x) = Inr (if 0 \<le> x then \<lfloor>x\<rfloor> else \<lceil>x\<rceil>)"
| "np_int NaN = Inl ValueError"
| "np_int _ = Inl OverflowError"

definition fl_int :: "int \<Rightarrow> fl" where
  "fl_int i = Fin (of_int i)"

section \<open>The capture noise model\<close>

text \<open>
  \<open>scipy.special.comb\<close> is library code. For float arguments it evaluates the binomial
  coefficient \<open>binom(N, k)\<close> and replaces the value by 0 unless \<open>k \<le> N\<close>, \<open>N \<ge> 0\<close> and
  \<open>k \<ge> 0\<close> all hold (so also when an argument is NaN). For a finite \<open>N\<close> and a natural
  number \<open>k\<close> the coefficient is the generalized binomial coefficient
  \<open>N (N - 1) \<dots> (N - k + 1) / k!\<close>; its values elsewhere (the extension by the gamma
  function) are the parameter \<open>bx\<close> of the model.
\<close>

definition binom :: "(fl \<Rightarrow> fl \<Rightarrow> fl) \<Rightarrow> fl \<Rightarrow> fl \<Rightarrow> fl" where
  "binom bx N k =
     (case (N, k) of
        (Fin n, Fin j) \<Rightarrow>
          (if 0 \<le> j \<and> j = of_int \<lfloor>j\<rfloor> then Fin (n gchoose nat \<lfloor>j\<rfloor>) else bx N k)
      | _ \<Rightarrow> bx N k)"

definition comb :: "(fl \<Rightarrow> fl \<Rightarrow> fl) \<Rightarrow> fl \<Rightarrow> fl \<Rightarrow> fl" where
  "comb bx N k =
     (let cond = (fl_le k N \<and> fl_ge N (Fin 0) \<and> fl_ge k (Fin 0));
          vals = binom bx N k
      in if \<not> cond then Fin 0 else vals)"

definition probability_psi_m_unknown ::
  "(fl \<Rightarrow> fl \<Rightarrow> fl) \<Rightarrow> fl \<Rightarrow> fl \<Rightarrow> fl \<Rightarrow> int \<Rightarrow> py_error + fl" where
  "probability_psi_m_unknown bx observed_psi true_psi capture_efficiency captured_mrna =
     (case np_int (fl_div (fl_int (10 * captured_mrna)) capture_efficiency) of
        Inl e \<Rightarrow> Inl e
      | Inr stop \<Rightarrow>
          (let m_array = [captured_mrna..stop - 1];
               comb_1 = map (\<lambda>m. comb bx (fl_mul (fl_int m) true_psi)
                                   (fl_mul (fl_int captured_mrna) observed_psi)) m_array;
               comb_2 = map (\<lambda>m. comb bx (fl_mul (fl_int m) (fl_sub (Fin 1) true_psi))
                                   (fl_mul (fl_int captured_mrna) (fl_sub (Fin 1) observed_psi)))
                          m_array;
               proba_1 = fl_powi capture_efficiency (captured_mrna + 1);
               proba_2 = map (\<lambda>m. fl_powi (fl_sub (Fin 1) capture_efficiency)
                                     (m - captured_mrna)) m_array;
               prob_array = map2 fl_mul
                              (map (\<lambda>x. fl_mul x proba_1) (map2 fl_mul comb_1 comb_2)) proba_2
           in Inr (np_sum prob_array)))"

definition probability_psi_m_known ::
  "(fl \<Rightarrow> fl \<Rightarrow> fl) \<Rightarrow> fl \<Rightarrow> fl \<Rightarrow> int \<Rightarrow> fl \<Rightarrow> fl" where
  "probability_psi_m_known bx observed_psi true_psi captured_mrna cell_molecules =
     (let comb_1 = comb bx (fl_mul cell_molecules true_psi)
                     (fl_mul (fl_int captured_mrna) observed_psi);
          comb_2 = comb bx (fl_mul cell_molecules (fl_sub (Fin 1) true_psi))
                     (fl_mul (fl_int captured_mrna) (fl_sub (Fin 1) observed_psi));
          comb_3 = fl_powi (comb bx cell_molecules (fl_int captured_mrna)) (- 1)
      in fl_mul (fl_mul comb_1 comb_2) comb_3)"

definition probability_psi_observation ::
  "(fl \<Rightarrow> fl \<Rightarrow> fl) \<Rightarrow> fl \<Rightarrow> fl \<Rightarrow> fl \<Rightarrow> int \<Rightarrow> py_error + fl" where
  "probability_psi_observation bx observed_psi true_psi capture_efficiency captured_mrna =
     (let cell_molecules = fl_div (fl_int captured_mrna) capture_efficiency
      in if fl_lt (fl_mul cell_molecules true_psi) (fl_mul (fl_int captured_mrna) observed_psi)
            \<or> fl_lt (fl_mul cell_molecules (fl_sub (Fin 1) true_psi))
                    (fl_mul (fl_int captured_mrna) (fl_sub (Fin 1) observed_psi))
         then probability_psi_m_unknown bx observed_psi true_psi capture_efficiency captured_mrna
         else Inr (probability_psi_m_known bx observed_psi true_psi captured_mrna
                     cell_molecules))"

section \<open>Scoring one observation\<close>

text \<open>
  The score of a cell is a float; the integer literal \<open>0\<close> that the function returns on
  its neutral paths is the float 0 of the model.
\<close>

definition psi_observation_score ::
  "(fl \<Rightarrow> fl \<Rightarrow> fl) \<Rightarrow> fl \<Rightarrow> fl \<Rightarrow> fl \<Rightarrow> int \<Rightarrow> fl \<Rightarrow> fl \<Rightarrow> py_error + fl" where
  "psi_observation_score bx observed_psi neighborhood_psi global_psi captured_mrna
       capture_efficiency min_probability =
     (if fl_isnan observed_psi then Inr (Fin 0)
      else
        (case probability_psi_observation bx observed_psi neighborhood_psi
                capture_efficiency captured_mrna of
           Inl e \<Rightarrow> Inl e
         | Inr p_neighborhood \<Rightarrow>
             (case probability_psi_observation bx observed_psi global_psi
                     capture_efficiency captured_mrna of
                Inl e \<Rightarrow> Inl e
              | Inr p_global \<Rightarrow>
                  (let probability_given_neighborhood = np_max2 min_probability p_neighborhood;
                       probability_given_global = np_max2 min_probability p_global;
                       log_probability_neighborhood = fl_log probability_given_neighborhood;
                       log_probability_global = fl_log probability_given_global;
                       any_nan = (fl_isnan log_probability_neighborhood
                                  \<or> fl_isnan log_probability_global
                                  \<or> fl_isnan (fl_sub log_probability_neighborhood
                                                      log_probability_global))
                   in if any_nan then Inr (Fin 0)
                      else Inr (fl_sub log_probability_neighborhood log_probability_global)))))"

text \<open>Python indexing of a sequence: a negative index counts from the end, an index out
  of range raises.\<close>

definition py_get :: "'a list \<Rightarrow> int \<Rightarrow> py_error + 'a" where
  "py_get xs i =
     (let n = int (length xs); j = (if i < 0 then i + n else i)
      in if 0 \<le> j \<and> j < n then Inr (xs ! nat j) else Inl IndexError)"

text \<open>Running a fallible function over a list, stopping at the first exception.\<close>

fun map_err :: "('a \<Rightarrow> py_error + 'b) \<Rightarrow> 'a list \<Rightarrow> py_error + 'b list" where
  "map_err f [] = Inr []"
| "map_err f (x # xs) =
     (case f x of
        Inl e \<Rightarrow> Inl e
      | Inr y \<Rightarrow> (case map_err f xs of Inl e \<Rightarrow> Inl e | Inr ys \<Rightarrow> Inr (y # ys)))"

definition clamp_psi :: "fl \<Rightarrow> fl" where
  "clamp_psi x =
     (if fl_gt x (Fin (99 / 100)) then Fin (99 / 100)
      else if fl_lt x (Fin (1 / 100)) then Fin (1 / 100) else x)"

text \<open>\<open>np.vectorize\<close> applies the function to every index in turn and refuses an empty
  index range. It takes the type of its output array from the first result; the model
  takes every score as a float, which is what happens unless the first cell returns the
  integer 0 of a neutral path.\<close>

definition psi_observations_scores_vec ::
  "(fl \<Rightarrow> fl \<Rightarrow> fl) \<Rightarrow> fl list \<Rightarrow> fl list \<Rightarrow> fl \<Rightarrow> int list \<Rightarrow> fl \<Rightarrow> fl
     \<Rightarrow> py_error + fl list" where
  "psi_observations_scores_vec bx observed_psi_array neighborhood_psi_array global_psi
       mrna_array capture_efficiency min_probability =
     (let neighborhood_psi_array = map clamp_psi neighborhood_psi_array;
          func = (\<lambda>i.
            case py_get observed_psi_array (int i) of Inl e \<Rightarrow> Inl e | Inr psi_o \<Rightarrow>
            (case py_get neighborhood_psi_array (int i) of Inl e \<Rightarrow> Inl e | Inr psi_a \<Rightarrow>
            (case py_get mrna_array (int i) of Inl e \<Rightarrow> Inl e | Inr mrna \<Rightarrow>
               psi_observation_score bx psi_o psi_a global_psi mrna
                 capture_efficiency min_probability)));
          x = [0..<length observed_psi_array]
      in if x = [] then Inl ValueError else map_err func x)"

section \<open>Neighborhood smoothing\<close>

text \<open>
  The neighbor graph \<open>cell_metric\<close> is a pair of tables: row \<open>i\<close> of the first lists the
  neighbor indices of cell \<open>i\<close>, row \<open>i\<close> of the second the weights. An index out of range
  raises, as in Python. Raw molecule estimates are finite reals.
\<close>

type_synonym cell_metric = "int list list \<times> fl list list"

fun neighbor_loop ::
  "fl list \<Rightarrow> int list \<Rightarrow> fl list \<Rightarrow> nat list \<Rightarrow> fl \<times> fl \<Rightarrow> py_error + fl \<times> fl" where
  "neighbor_loop observed_psi_array neighbors weights [] (psi_sum, weight_sum) =
     Inr (psi_sum, weight_sum)"
| "neighbor_loop observed_psi_array neighbors weights (j # js) (psi_sum, weight_sum) =
     (case py_get neighbors (int j) of Inl e \<Rightarrow> Inl e | Inr nb \<Rightarrow>
     (case py_get observed_psi_array nb of Inl e \<Rightarrow> Inl e | Inr psi_n \<Rightarrow>
        if \<not> fl_isnan psi_n then
          (case py_get weights (int j) of Inl e \<Rightarrow> Inl e | Inr w \<Rightarrow>
             neighbor_loop observed_psi_array neighbors weights js
               (fl_add psi_sum (fl_mul psi_n w), fl_add weight_sum w))
        else neighbor_loop observed_psi_array neighbors weights js (psi_sum, weight_sum)))"

fun cell_loop ::
  "fl list \<Rightarrow> real list \<Rightarrow> cell_metric \<Rightarrow> nat list \<Rightarrow> fl list \<times> fl list \<times> real list
     \<Rightarrow> py_error + fl list \<times> fl list \<times> real list" where
  "cell_loop observed_psi_array mrna_obs_array cell_metric []
       (psi_o_array, psi_a_array, mrna_array) =
     Inr (psi_o_array, psi_a_array, mrna_array)"
| "cell_loop observed_psi_array mrna_obs_array cell_metric (i # is)
       (psi_o_array, psi_a_array, mrna_array) =
     (case py_get observed_psi_array (int i) of Inl e \<Rightarrow> Inl e | Inr psi_o \<Rightarrow>
        if \<not> fl_isnan psi_o then
          (case py_get mrna_obs_array (int i) of Inl e \<Rightarrow> Inl e | Inr mrna \<Rightarrow>
          (case py_get (fst cell_metric) (int i) of Inl e \<Rightarrow> Inl e | Inr neighbors \<Rightarrow>
          (case py_get (snd cell_metric) (int i) of Inl e \<Rightarrow> Inl e | Inr weights \<Rightarrow>
          (case neighbor_loop observed_psi_array neighbors weights
                  [1..<length neighbors] (Fin 0, Fin 0) of
             Inl e \<Rightarrow> Inl e
           | Inr (psi_sum, weight_sum) \<Rightarrow>
               cell_loop observed_psi_array mrna_obs_array cell_metric is
                 (psi_o_array @ [psi_o],
                  psi_a_array @ [if fl_gt weight_sum (Fin 0) then fl_div psi_sum weight_sum
                                 else NaN],
                  mrna_array @ [mrna])))))
        else cell_loop observed_psi_array mrna_obs_array cell_metric is
               (psi_o_array, psi_a_array, mrna_array))"

definition collapse_mrna :: "real \<Rightarrow> real" where
  "collapse_mrna x = (if x > 1 / 10 \<and> x \<le> 1 then 1 else x)"

definition get_arrays ::
  "fl list \<Rightarrow> real list \<Rightarrow> cell_metric \<Rightarrow> py_error + fl list \<times> fl list \<times> real list" where
  "get_arrays observed_psi_array mrna_obs_array cell_metric =
     (case cell_loop observed_psi_array mrna_obs_array cell_metric
             [0..<length observed_psi_array] ([], [], []) of
        Inl e \<Rightarrow> Inl e
      | Inr (psi_o_array, psi_a_array, mrna_array) \<Rightarrow>
          Inr (psi_o_array, psi_a_array, map collapse_mrna mrna_array))"

section \<open>The lookup tables\<close>

text \<open>\<open>np.round\<close> rounds a half to the even neighbour and leaves NaN and the infinities.\<close>

definition round_half_even :: "real \<Rightarrow> int" where
  "round_half_even x =
     (let f = \<lfloor>x\<rfloor>; d = x - of_int f
      in if d < 1 / 2 then f else if 1 / 2 < d then f + 1 else if even f then f else f + 1)"

fun np_round :: "fl \<Rightarrow> fl" where
  "np_round (Fin x) = fl_int (round_half_even x)"
| "np_round v = v"

text \<open>
  A table is a matrix of probabilities, a list of rows. \<open>turbo_dict\<close> is a Python
  sequence of tables: \<open>psix_score\<close> takes its length and \<open>psix_turbo\<close> indexes it by an
  integer, so a negative index counts from the end and an index out of range raises.
  \<open>np.int\<close> of a NaN or infinite value raises, as it does in Python.
\<close>

type_synonym table = "fl list list"

definition psix_turbo :: "fl \<Rightarrow> fl \<Rightarrow> int \<Rightarrow> table list \<Rightarrow> py_error + fl" where
  "psix_turbo psi_o psi_a mrna turbo_dict =
     (case np_int (np_round (fl_mul psi_o (Fin 100))) of Inl e \<Rightarrow> Inl e | Inr psi_o_idx \<Rightarrow>
     (case np_int (np_round (fl_mul psi_a (Fin 100))) of Inl e \<Rightarrow> Inl e | Inr a_idx \<Rightarrow>
        (let psi_a_idx = a_idx - 1;
             mrna_idx = mrna - 1;
             psi_a_idx = (if psi_a_idx < 0 then 0 else if psi_a_idx > 98 then 98 else psi_a_idx)
         in case py_get turbo_dict mrna_idx of Inl e \<Rightarrow> Inl e | Inr tbl \<Rightarrow>
            (case py_get tbl psi_o_idx of Inl e \<Rightarrow> Inl e | Inr row \<Rightarrow>
               py_get row psi_a_idx))))"

definition L_score_turbo :: "fl \<Rightarrow> fl \<Rightarrow> fl \<Rightarrow> int \<Rightarrow> table list \<Rightarrow> py_error + fl" where
  "L_score_turbo psi_o psi_a psi_n mrna turbo_dict =
     (case psix_turbo psi_o psi_a mrna turbo_dict of Inl e \<Rightarrow> Inl e | Inr p_a \<Rightarrow>
     (case psix_turbo psi_o psi_n mrna turbo_dict of Inl e \<Rightarrow> Inl e | Inr p_null \<Rightarrow>
        (let L_a = fl_log p_a; L_null = fl_log p_null in Inr (fl_sub L_a L_null))))"

definition psi_observations_scores_vec_turbo ::
  "fl list \<Rightarrow> fl list \<Rightarrow> fl \<Rightarrow> int list \<Rightarrow> table list \<Rightarrow> py_error + fl list" where
  "psi_observations_scores_vec_turbo observed_psi_array neighborhood_psi_array global_psi
       mrna_array turbo_dict =
     map_err (\<lambda>i.
        case py_get observed_psi_array (int i) of Inl e \<Rightarrow> Inl e | Inr psi_o \<Rightarrow>
        (case py_get neighborhood_psi_array (int i) of Inl e \<Rightarrow> Inl e | Inr psi_a \<Rightarrow>
        (case py_get mrna_array (int i) of Inl e \<Rightarrow> Inl e | Inr mrna \<Rightarrow>
           L_score_turbo psi_o psi_a global_psi mrna turbo_dict)))
       [0..<length observed_psi_array]"

section \<open>The exon score\<close>

text \<open>
  The random generator is process-wide state of numpy: \<open>np.random.seed\<close> replaces it by
  the state \<open>seed_rng seed\<close>, and \<open>shuffle\<close> reads it, returns the reordered indices and
  leaves the advanced state. Both are library code and parameters of the model; the
  generator state is threaded through \<open>psix_score\<close>.
\<close>

definition np_nanmean :: "fl list \<Rightarrow> fl" where
  "np_nanmean xs =
     (let ys = filter (\<lambda>x. \<not> fl_isnan x) xs
      in if ys = [] then NaN else fl_div (np_sum ys) (fl_int (int (length ys))))"


text \<open>The cap of line 270: \<open>mrna_max if x >= mrna_max else x\<close>.\<close>

definition cap_mrna :: "int \<Rightarrow> int \<Rightarrow> int" where
  "cap_mrna mrna_max x = (if x \<ge> mrna_max then mrna_max else x)"

text \<open>Lines 255 to 291 of \<open>psix_score\<close>: smoothing, counting, scoring, averaging. An
  empty list of tables selects the direct path, as the default \<open>turbo = False\<close> does.\<close>

definition score_arrays ::
  "(fl \<Rightarrow> fl \<Rightarrow> fl) \<Rightarrow> fl list \<Rightarrow> real list \<Rightarrow> cell_metric \<Rightarrow> fl \<Rightarrow> fl \<Rightarrow> table list
     \<Rightarrow> py_error + fl" where
  "score_arrays bx exon_psi_array exon_mrna_array cell_metric capture_efficiency
       min_probability turbo =
     (case get_arrays exon_psi_array exon_mrna_array cell_metric of
        Inl e \<Rightarrow> Inl e
      | Inr (observed_psi_array, neighborhood_psi_array, mrna_array) \<Rightarrow>
          (let mrna_array = map round_half_even mrna_array;
               total_cells = int (length observed_psi_array)
                             - int (length (filter (\<lambda>x. x = 0) mrna_array))
           in if total_cells \<le> 0 then Inr NaN
              else
                (let global_psi = np_nanmean observed_psi_array;
                     L_vec =
                       (if turbo \<noteq> [] then
                          (let mrna_max = int (length turbo);
                               mrna_array = map (cap_mrna mrna_max) mrna_array
                           in psi_observations_scores_vec_turbo observed_psi_array
                                neighborhood_psi_array global_psi mrna_array turbo)
                        else psi_observations_scores_vec bx observed_psi_array
                               neighborhood_psi_array global_psi mrna_array
                               capture_efficiency min_probability)
                 in case L_vec of
                      Inl e \<Rightarrow> Inl e
                    | Inr L_vec \<Rightarrow> Inr (fl_div (np_sum L_vec) (fl_int total_cells)))))"


section \<open>The formulas of the specification\<close>

text \<open>
  The specification writes the capture noise model as a branch between a sum over
  candidate molecule counts and a closed form. The definitions below follow its words:
  the condition that selects the sum, one term of the sum, the sum over the counts from
  \<open>r\<close> to \<open>hi\<close> (both ends included), and the closed form, a quotient.
\<close>

definition m_unknown_condition :: "fl \<Rightarrow> fl \<Rightarrow> fl \<Rightarrow> int \<Rightarrow> bool" where
  "m_unknown_condition observed t c r =
     (let cell_molecules = fl_div (fl_int r) c
      in fl_lt (fl_mul cell_molecules t) (fl_mul (fl_int r) observed)
         \<or> fl_lt (fl_mul cell_molecules (fl_sub (Fin 1) t))
                 (fl_mul (fl_int r) (fl_sub (Fin 1) observed)))"

definition noise_term :: "(fl \<Rightarrow> fl \<Rightarrow> fl) \<Rightarrow> fl \<Rightarrow> fl \<Rightarrow> fl \<Rightarrow> int \<Rightarrow> int \<Rightarrow> fl" where
  "noise_term bx observed t c r m =
     fl_mul (fl_mul (fl_mul (comb bx (fl_mul (fl_int m) t) (fl_mul (fl_int r) observed))
                            (comb bx (fl_mul (fl_int m) (fl_sub (Fin 1) t))
                                     (fl_mul (fl_int r) (fl_sub (Fin 1) observed))))
                    (fl_powi c (r + 1)))
            (fl_powi (fl_sub (Fin 1) c) (m - r))"

definition noise_summed_form ::
  "(fl \<Rightarrow> fl \<Rightarrow> fl) \<Rightarrow> fl \<Rightarrow> fl \<Rightarrow> fl \<Rightarrow> int \<Rightarrow> int \<Rightarrow> fl" where
  "noise_summed_form bx observed t c r hi = np_sum (map (noise_term bx observed t c r) [r..hi])"

definition noise_closed_form :: "(fl \<Rightarrow> fl \<Rightarrow> fl) \<Rightarrow> fl \<Rightarrow> fl \<Rightarrow> fl \<Rightarrow> int \<Rightarrow> fl" where
  "noise_closed_form bx observed t c r =
     (let cell_molecules = fl_div (fl_int r) c
      in fl_div (fl_mul (comb bx (fl_mul cell_molecules t) (fl_mul (fl_int r) observed))
                        (comb bx (fl_mul cell_molecules (fl_sub (Fin 1) t))
                                 (fl_mul (fl_int r) (fl_sub (Fin 1) observed))))
                (comb bx cell_molecules (fl_int r)))"

text \<open>
  The smoothed estimate in the words of the specification: among the neighbors at list
  positions 1 onward, those with a defined observation contribute; the estimate is the
  sum of their observations times their weights over the sum of their weights, and is
  NaN when that sum of weights is 0. The predicates after it say what a well-formed
  input is: observations that are finite or NaN, neighbor indices in range, one finite
  non-negative weight per neighbor, a row per cell and a molecule estimate per cell.
\<close>

fun the_real :: "fl \<Rightarrow> real" where
  "the_real (Fin x) = x"
| "the_real _ = 0"

definition contributing :: "fl list \<Rightarrow> int list \<Rightarrow> nat list \<Rightarrow> nat list" where
  "contributing obs nbrs js = filter (\<lambda>j. \<not> fl_isnan (obs ! nat (nbrs ! j))) js"

definition weight_total :: "fl list \<Rightarrow> int list \<Rightarrow> fl list \<Rightarrow> nat list \<Rightarrow> real" where
  "weight_total obs nbrs wts js = (\<Sum>j\<leftarrow>contributing obs nbrs js. the_real (wts ! j))"

definition psi_total :: "fl list \<Rightarrow> int list \<Rightarrow> fl list \<Rightarrow> nat list \<Rightarrow> real" where
  "psi_total obs nbrs wts js =
     (\<Sum>j\<leftarrow>contributing obs nbrs js. the_real (obs ! nat (nbrs ! j)) * the_real (wts ! j))"

definition neighborhood_estimate :: "fl list \<Rightarrow> int list \<Rightarrow> fl list \<Rightarrow> fl" where
  "neighborhood_estimate obs nbrs wts =
     (let js = [1..<length nbrs]
      in if weight_total obs nbrs wts js = 0 then NaN
         else Fin (psi_total obs nbrs wts js / weight_total obs nbrs wts js))"

definition defined_cells :: "fl list \<Rightarrow> nat list" where
  "defined_cells obs = filter (\<lambda>i. \<not> fl_isnan (obs ! i)) [0..<length obs]"

definition finite_or_nan :: "fl \<Rightarrow> bool" where
  "finite_or_nan x = (case x of Fin _ \<Rightarrow> True | NaN \<Rightarrow> True | _ \<Rightarrow> False)"

definition weight_ok :: "fl \<Rightarrow> bool" where
  "weight_ok w = (case w of Fin x \<Rightarrow> 0 \<le> x | _ \<Rightarrow> False)"

definition row_ok :: "fl list \<Rightarrow> int list \<Rightarrow> fl list \<Rightarrow> bool" where
  "row_ok obs nbrs wts =
     (length nbrs \<le> length wts
      \<and> list_all (\<lambda>j. 0 \<le> nbrs ! j \<and> nbrs ! j < int (length obs) \<and> weight_ok (wts ! j))
           [1..<length nbrs])"

definition graph_ok :: "fl list \<Rightarrow> real list \<Rightarrow> cell_metric \<Rightarrow> bool" where
  "graph_ok obs mrna cm =
     (length obs \<le> length mrna \<and> length obs \<le> length (fst cm) \<and> length obs \<le> length (snd cm)
      \<and> list_all finite_or_nan obs
      \<and> list_all (\<lambda>i. row_ok obs (fst cm ! i) (snd cm ! i)) (defined_cells obs))"

text \<open>
  The count of scored cells in the words of the specification: the cells with a defined
  observation, less those among them whose collapsed and rounded molecule estimate is 0.
  \<open>input_arrays\<close> names the two arrays that reach the smoothing step: the caller's, or
  their reindexing by the shuffle when \<open>randomize\<close> is set.
\<close>

definition scored_cells_total :: "fl list \<Rightarrow> real list \<Rightarrow> int" where
  "scored_cells_total psi mrna =
     int (length (defined_cells psi))
     - int (length (filter (\<lambda>i. round_half_even (collapse_mrna (mrna ! i)) = 0)
                      (defined_cells psi)))"



definition turbo_table :: "table list \<Rightarrow> int \<Rightarrow> table" where
  "turbo_table T r = (if r = 0 then last T else T ! nat (r - 1))"





text \<open>Two small tables for the examples: the first is all ones, the second (the last
  one) holds 1/2 in row 0, column 3.\<close>

definition example_tables :: "table list" where
  "example_tables = [replicate 5 [Fin 1, Fin 1], [[Fin 1, Fin 1, Fin 1, Fin (1 / 2)]]]"

section \<open>Arithmetic of the float values\<close>

lemma fl_isnan_iff: "fl_isnan x \<longleftrightarrow> x = NaN"
  by (cases x) simp_all


lemma fl_mul_powi_inverse: "fl_mul x (fl_powi y (- 1)) = fl_div x y"
  by (cases x; cases y) (auto simp: inf_times_def divide_simps)


lemma fl_sub_Fin: "fl_sub (Fin a) (Fin b) = Fin (a - b)"
  by (simp add: fl_sub_def)

lemma np_max2_Fin: "np_max2 (Fin a) (Fin b) = Fin (max a b)"
  by (simp add: np_max2_def max_def)

lemma map2_same: "map2 f (map g xs) (map h xs) = map (\<lambda>x. f (g x) (h x)) xs"
  by (induction xs) simp_all

section \<open>The capture noise model: branches, range of the sum, symmetry\<close>

lemma probability_psi_m_unknown_sum:
  "probability_psi_m_unknown bx observed t c r =
     (case np_int (fl_div (fl_int (10 * r)) c) of
        Inl e \<Rightarrow> Inl e
      | Inr stop \<Rightarrow> Inr (noise_summed_form bx observed t c r (stop - 1)))"
  unfolding probability_psi_m_unknown_def noise_term_def noise_summed_form_def Let_def
  by (simp add: map2_same split: sum.splits)

lemma probability_psi_m_known_quotient:
  "probability_psi_m_known bx observed t r (fl_div (fl_int r) c) =
     noise_closed_form bx observed t c r"
  unfolding probability_psi_m_known_def noise_closed_form_def Let_def
  by (simp add: fl_mul_powi_inverse)



lemma probability_psi_observation_cases:
  "probability_psi_observation bx observed t c r =
     (if m_unknown_condition observed t c r
      then probability_psi_m_unknown bx observed t c r
      else Inr (probability_psi_m_known bx observed t r (fl_div (fl_int r) c)))"
  by (simp add: probability_psi_observation_def m_unknown_condition_def Let_def)

text \<open>
  C1 (as amended). For every observed ratio, true ratio, capture efficiency and captured
  count \<open>r\<close>, \<open>probability_psi_observation\<close> takes \<open>cell_molecules = r / c\<close> and branches on
  \<open>cell_molecules * t < r * o\<close> or \<open>cell_molecules * (1 - t) < r * (1 - o)\<close>. In the first
  branch it returns the sum of
  \<open>C(m * t, r * o) * C(m * (1 - t), r * (1 - o)) * c ^ (r + 1) * (1 - c) ^ (m - r)\<close> over the
  integers \<open>m\<close> with \<open>r \<le> m < stop\<close>, where \<open>stop\<close> is \<open>10 * r / c\<close> truncated to an integer:
  the upper end is excluded (and the call raises when \<open>10 * r / c\<close> is NaN or infinite).
  In the other branch it returns the closed form
  \<open>C(cell_molecules * t, r * o) * C(cell_molecules * (1 - t), r * (1 - o)) / C(cell_molecules, r)\<close>.
  \<open>C\<close> is the combinatorial function \<open>comb\<close> of the library: 0 unless \<open>0 \<le> k \<le> N\<close>, and
  the binomial coefficient or its continuous extension there.
\<close>

theorem capture_noise_model_branches:
  "probability_psi_observation bx observed t c r =
     (if m_unknown_condition observed t c r
      then (case np_int (fl_div (fl_int (10 * r)) c) of
              Inl e \<Rightarrow> Inl e
            | Inr stop \<Rightarrow> Inr (noise_summed_form bx observed t c r (stop - 1)))
      else Inr (noise_closed_form bx observed t c r))"
  by (simp add: probability_psi_observation_cases probability_psi_m_unknown_sum
      probability_psi_m_known_quotient)

text \<open>
  C1 as stated lets the sum run up to \<open>10 * r / c\<close>. At observed ratio 1, true ratio 1/4,
  capture efficiency 1/2 and one captured molecule, the first branch is taken and
  \<open>10 * r / c = 20\<close>; the function returns the sum over \<open>m = 1, \<dots>, 19\<close>, which differs from
  the sum over \<open>m = 1, \<dots>, 20\<close> by the term of \<open>m = 20\<close>. In the same sum the terms of
  \<open>m = 1, 2, 3\<close> are 0 because \<open>comb\<close> is 0 where \<open>k > N\<close>, while the continuous extension of
  the binomial coefficient is not: at \<open>m = 1\<close> it is \<open>binom(1/4, 1) = 1/4\<close>.
\<close>

theorem capture_noise_model_inclusive_range_counterexample:
  "m_unknown_condition (Fin 1) (Fin (1 / 4)) (Fin (1 / 2)) 1
   \<and> np_int (fl_div (fl_int (10 * 1)) (Fin (1 / 2))) = Inr 20
   \<and> probability_psi_observation (\<lambda>N k. NaN) (Fin 1) (Fin (1 / 4)) (Fin (1 / 2)) 1
       = Inr (Fin (327659 / 4194304))
   \<and> noise_summed_form (\<lambda>N k. NaN) (Fin 1) (Fin (1 / 4)) (Fin (1 / 2)) 1 20
       = Fin (327669 / 4194304)
   \<and> probability_psi_observation (\<lambda>N k. NaN) (Fin 1) (Fin (1 / 4)) (Fin (1 / 2)) 1
       \<noteq> Inr (noise_summed_form (\<lambda>N k. NaN) (Fin 1) (Fin (1 / 4)) (Fin (1 / 2)) 1 20)
   \<and> comb (\<lambda>N k. NaN) (Fin (1 / 4)) (Fin 1) = Fin 0
   \<and> binom (\<lambda>N k. NaN) (Fin (1 / 4)) (Fin 1) = Fin (1 / 4)"
proof -
  have e: "comb (\<lambda>N k. NaN) (Fin (1 / 4)) (Fin 1) = Fin 0"
    by code_simp
  have f: "binom (\<lambda>N k. NaN) (Fin (1 / 4)) (Fin 1) = Fin (1 / 4)"
    by code_simp
  have a: "m_unknown_condition (Fin 1) (Fin (1 / 4)) (Fin (1 / 2)) 1"
    by code_simp
  have b: "np_int (fl_div (fl_int (10 * 1)) (Fin (1 / 2))) = Inr 20"
    by code_simp
  have c: "probability_psi_observation (\<lambda>N k. NaN) (Fin 1) (Fin (1 / 4)) (Fin (1 / 2)) 1
             = Inr (Fin (327659 / 4194304))"
    by code_simp
  have d: "noise_summed_form (\<lambda>N k. NaN) (Fin 1) (Fin (1 / 4)) (Fin (1 / 2)) 1 20
             = Fin (327669 / 4194304)"
    by code_simp
  from a b c d e f show ?thesis by simp
qed


section \<open>The score of one observation\<close>

text \<open>
  C3. \<open>psi_observation_score\<close> returns 0 when the observed ratio is NaN. Otherwise, with
  \<open>p_ref\<close> and \<open>p_global\<close> the two model probabilities floored by \<open>np.max\<close> at
  \<open>min_probability\<close>, it returns \<open>log p_ref - log p_global\<close>, and 0 instead when either
  logarithm or the difference is NaN; for finite probabilities and a positive floor that
  is the real number \<open>ln (max m p) - ln (max m q)\<close>. Whatever it returns is not NaN.
\<close>

theorem psi_observation_score_neutral:
  "(fl_isnan observed \<longrightarrow>
      psi_observation_score bx observed a g r c min_p = Inr (Fin 0))
   \<and> (\<not> fl_isnan observed
        \<and> probability_psi_observation bx observed a c r = Inr p_a
        \<and> probability_psi_observation bx observed g c r = Inr p_g \<longrightarrow>
      psi_observation_score bx observed a g r c min_p =
        Inr (let p_ref = np_max2 min_p p_a; p_global = np_max2 min_p p_g;
                 d = fl_sub (fl_log p_ref) (fl_log p_global)
             in if fl_isnan (fl_log p_ref) \<or> fl_isnan (fl_log p_global) \<or> fl_isnan d
                then Fin 0 else d))
   \<and> (\<not> fl_isnan observed
        \<and> probability_psi_observation bx observed a c r = Inr (Fin q_a)
        \<and> probability_psi_observation bx observed g c r = Inr (Fin q_g)
        \<and> 0 < m \<longrightarrow>
      psi_observation_score bx observed a g r c (Fin m) =
        Inr (Fin (ln (max m q_a) - ln (max m q_g))))
   \<and> (\<forall>v. psi_observation_score bx observed a g r c min_p = Inr v \<longrightarrow> \<not> fl_isnan v)"
proof (intro conjI impI allI)
  assume "fl_isnan observed"
  then show "psi_observation_score bx observed a g r c min_p = Inr (Fin 0)"
    by (simp add: psi_observation_score_def)
next
  assume "\<not> fl_isnan observed
        \<and> probability_psi_observation bx observed a c r = Inr p_a
        \<and> probability_psi_observation bx observed g c r = Inr p_g"
  then show "psi_observation_score bx observed a g r c min_p =
        Inr (let p_ref = np_max2 min_p p_a; p_global = np_max2 min_p p_g;
                 d = fl_sub (fl_log p_ref) (fl_log p_global)
             in if fl_isnan (fl_log p_ref) \<or> fl_isnan (fl_log p_global) \<or> fl_isnan d
                then Fin 0 else d)"
    by (simp add: psi_observation_score_def Let_def)
next
  assume h: "\<not> fl_isnan observed
        \<and> probability_psi_observation bx observed a c r = Inr (Fin q_a)
        \<and> probability_psi_observation bx observed g c r = Inr (Fin q_g)
        \<and> 0 < m"
  then have "0 < max m q_a" "0 < max m q_g"
    by (simp_all add: less_max_iff_disj)
  with h show "psi_observation_score bx observed a g r c (Fin m) =
        Inr (Fin (ln (max m q_a) - ln (max m q_g)))"
    by (simp add: psi_observation_score_def Let_def np_max2_Fin fl_sub_Fin)
next
  fix v
  assume "psi_observation_score bx observed a g r c min_p = Inr v"
  then show "\<not> fl_isnan v"
    by (auto simp: psi_observation_score_def Let_def split: if_splits sum.splits)
qed

lemma probability_one_of_one_at_half:
  "probability_psi_observation bx (Fin 1) (Fin (1 / 2)) (Fin (1 / 2)) 1 = Inr (Fin (1 / 2))"
  by code_simp

lemma probability_one_of_one_at_one:
  "probability_psi_observation bx (Fin 1) (Fin 1) (Fin (1 / 2)) 1 = Inr (Fin 1)"
  by code_simp

theorem psi_observation_score_neutral_witness:
  "psi_observation_score (\<lambda>N k. NaN) NaN (Fin (1 / 2)) (Fin 1) 1 (Fin (1 / 2)) (Fin (1 / 100))
     = Inr (Fin 0)
   \<and> psi_observation_score (\<lambda>N k. NaN) (Fin 1) (Fin (1 / 2)) (Fin 1) 1 (Fin (1 / 2))
        (Fin (1 / 100)) = Inr (Fin (ln (1 / 2)))"
proof -
  have a: "psi_observation_score (\<lambda>N k. NaN) NaN (Fin (1 / 2)) (Fin 1) 1 (Fin (1 / 2))
             (Fin (1 / 100)) = Inr (Fin 0)"
    by (rule psi_observation_score_neutral [THEN conjunct1, THEN mp]) simp
  have "psi_observation_score (\<lambda>N k. NaN) (Fin 1) (Fin (1 / 2)) (Fin 1) 1 (Fin (1 / 2))
          (Fin (1 / 100)) = Inr (Fin (ln (max (1 / 100) (1 / 2)) - ln (max (1 / 100) 1)))"
    by (rule psi_observation_score_neutral
          [THEN conjunct2, THEN conjunct2, THEN conjunct1, THEN mp])
       (simp add: probability_one_of_one_at_half probability_one_of_one_at_one)
  then have b: "psi_observation_score (\<lambda>N k. NaN) (Fin 1) (Fin (1 / 2)) (Fin 1) 1
                  (Fin (1 / 2)) (Fin (1 / 100)) = Inr (Fin (ln (1 / 2)))"
    by simp
  from a b show ?thesis by (rule conjI)
qed

section \<open>Cells without captured molecules, direct path\<close>

lemma comb_zero_zero: "comb bx (Fin 0) (Fin 0) = Fin 1"
  by (simp add: comb_def binom_def fl_ge_def)

lemma comb_nan_zero: "comb bx NaN k = Fin 0"
  by (cases k) (simp_all add: comb_def fl_ge_def)

text \<open>With no captured molecule and a finite reference estimate the closed form is 1, and
  the score of the cell is 0 whatever the floor.\<close>

lemma zero_molecules_probability:
  assumes "c \<noteq> 0"
  shows "probability_psi_observation bx (Fin observed) (Fin t) (Fin c) 0 = Inr (Fin 1)"
  using assms
  by (simp add: probability_psi_observation_def probability_psi_m_known_def fl_int_def
      fl_sub_def comb_zero_zero)

lemma zero_molecules_score_defined_estimates:
  assumes "c \<noteq> 0"
  shows "psi_observation_score bx (Fin observed) (Fin a) (Fin g) 0 (Fin c) min_p = Inr (Fin 0)"
  using assms
  by (cases min_p)
     (simp_all add: psi_observation_score_def zero_molecules_probability np_max2_def fl_sub_def)

text \<open>With no captured molecule and a NaN reference estimate, \<open>comb\<close> turns the NaN
  arguments into the value 0, and the model probability is 0.\<close>

lemma zero_molecules_probability_nan:
  assumes "c \<noteq> 0"
  shows "probability_psi_observation bx (Fin observed) NaN (Fin c) 0 = Inr (Fin 0)"
  using assms
  by (simp add: probability_psi_observation_def probability_psi_m_known_def fl_int_def
      fl_sub_def comb_zero_zero comb_nan_zero)

lemma get_arrays_three_cells:
  "get_arrays [Fin (1 / 2), Fin (1 / 2), NaN] [0, 2, 1]
     ([[0, 2], [1, 0], [2, 0]], [[Fin 1, Fin 1], [Fin 1, Fin 1], [Fin 1, Fin 1]])
   = Inr ([Fin (1 / 2), Fin (1 / 2)], [NaN, Fin (1 / 2)], [0, 2])"
  by code_simp

lemma probability_two_molecules_at_half:
  "probability_psi_observation bx (Fin (1 / 2)) (Fin (1 / 2)) (Fin (1 / 10)) 2
     = Inr (Fin (10 / 19))"
  by code_simp

lemma score_zero_molecules_nan_estimate:
  "psi_observation_score bx (Fin (1 / 2)) NaN (Fin (1 / 2)) 0 (Fin (1 / 10)) (Fin (1 / 100))
     = Inr (Fin (ln (1 / 100)))"
  by (simp add: psi_observation_score_def zero_molecules_probability
      zero_molecules_probability_nan np_max2_def fl_sub_def)

lemma score_two_molecules_at_half:
  "psi_observation_score bx (Fin (1 / 2)) (Fin (1 / 2)) (Fin (1 / 2)) 2 (Fin (1 / 10))
     (Fin (1 / 100)) = Inr (Fin 0)"
  by (simp add: psi_observation_score_def probability_two_molecules_at_half np_max2_def
      fl_sub_def)

lemma clamp_two_cells: "map clamp_psi [NaN, Fin (1 / 2)] = [NaN, Fin (1 / 2)]"
  by code_simp

lemma scores_vec_two_cells:
  "psi_observations_scores_vec bx [Fin (1 / 2), Fin (1 / 2)] [NaN, Fin (1 / 2)] (Fin (1 / 2))
     [0, 2] (Fin (1 / 10)) (Fin (1 / 100)) = Inr [Fin (ln (1 / 100)), Fin 0]"
  unfolding psi_observations_scores_vec_def Let_def clamp_two_cells
  by (simp add: py_get_def score_zero_molecules_nan_estimate score_two_molecules_at_half
      upt_conv_Cons)

lemma round_half_even_0: "round_half_even 0 = 0"
  by code_simp

lemma round_half_even_2: "round_half_even 2 = 2"
  by code_simp

lemma nanmean_two_halves: "np_nanmean [Fin (1 / 2), Fin (1 / 2)] = Fin (1 / 2)"
  by code_simp

text \<open>
  C10. Three cells: the first two are observed at 1/2, the third has no observation. The
  first has no captured molecule and the third cell as its only neighbor; the second has
  two molecules and the first cell as its neighbor. The first cell is retained with a NaN
  neighborhood estimate; its model probability under that estimate is 0, is floored at
  \<open>min_probability = 1/100\<close>, and its score is \<open>ln (1/100)\<close>, not 0. It is not counted
  in \<open>total_cells = 1\<close>, and the exon score is \<open>ln (1/100)\<close> where the second cell alone
  scores 0. (With a finite reference estimate a cell without molecules does score 0:
  \<open>zero_molecules_score_defined_estimates\<close>.)
\<close>

theorem zero_molecule_cell_nan_estimate_scores:
  "get_arrays [Fin (1 / 2), Fin (1 / 2), NaN] [0, 2, 1]
     ([[0, 2], [1, 0], [2, 0]], [[Fin 1, Fin 1], [Fin 1, Fin 1], [Fin 1, Fin 1]])
     = Inr ([Fin (1 / 2), Fin (1 / 2)], [NaN, Fin (1 / 2)], [0, 2])
   \<and> psi_observation_score bx (Fin (1 / 2)) NaN (Fin (1 / 2)) 0 (Fin (1 / 10)) (Fin (1 / 100))
     = Inr (Fin (ln (1 / 100)))
   \<and> score_arrays bx [Fin (1 / 2), Fin (1 / 2), NaN] [0, 2, 1]
       ([[0, 2], [1, 0], [2, 0]], [[Fin 1, Fin 1], [Fin 1, Fin 1], [Fin 1, Fin 1]])
       (Fin (1 / 10)) (Fin (1 / 100)) []
     = Inr (Fin (ln (1 / 100)))
   \<and> ln (1 / 100 :: real) \<noteq> 0"
proof -
  have "score_arrays bx [Fin (1 / 2), Fin (1 / 2), NaN] [0, 2, 1]
          ([[0, 2], [1, 0], [2, 0]], [[Fin 1, Fin 1], [Fin 1, Fin 1], [Fin 1, Fin 1]])
          (Fin (1 / 10)) (Fin (1 / 100)) []
        = Inr (Fin (ln (1 / 100)))"
    unfolding score_arrays_def get_arrays_three_cells
    by (simp add: round_half_even_0 round_half_even_2 nanmean_two_halves scores_vec_two_cells
        np_sum_def fl_int_def)
  moreover have "ln (1 / 100 :: real) \<noteq> 0"
    by simp
  ultimately show ?thesis
    by (simp add: get_arrays_three_cells score_zero_molecules_nan_estimate)
qed

section \<open>Neighborhood smoothing\<close>

lemma py_get_nat: "j < length xs \<Longrightarrow> py_get xs (int j) = Inr (xs ! j)"
  by (simp add: py_get_def)

lemma py_get_nonneg: "0 \<le> i \<Longrightarrow> i < int (length xs) \<Longrightarrow> py_get xs i = Inr (xs ! nat i)"
  by (simp add: py_get_def)

lemma finite_or_nan_cases: "finite_or_nan x \<Longrightarrow> \<not> fl_isnan x \<Longrightarrow> \<exists>r. x = Fin r"
  by (cases x) (simp_all add: finite_or_nan_def)

lemma weight_ok_cases: "weight_ok w \<Longrightarrow> \<exists>x\<ge>0. w = Fin x"
  by (cases w) (simp_all add: weight_ok_def)

lemma neighbor_loop_sums:
  assumes "list_all finite_or_nan obs"
    and "\<forall>j\<in>set js. j < length nbrs \<and> j < length wts \<and> 0 \<le> nbrs ! j
           \<and> nbrs ! j < int (length obs) \<and> weight_ok (wts ! j)"
  shows "neighbor_loop obs nbrs wts js (Fin s, Fin w) =
           Inr (Fin (s + psi_total obs nbrs wts js), Fin (w + weight_total obs nbrs wts js))"
  using assms(2)
proof (induction js arbitrary: s w)
  case Nil
  then show ?case
    by (simp add: psi_total_def weight_total_def contributing_def)
next
  case (Cons j js)
  then have j: "j < length nbrs" "j < length wts" "0 \<le> nbrs ! j" "nbrs ! j < int (length obs)"
    "weight_ok (wts ! j)"
    by simp_all
  from j(5) obtain x where x: "wts ! j = Fin x"
    using weight_ok_cases by blast
  have nb: "nat (nbrs ! j) < length obs"
    using j(3,4) by linarith
  have IH: "neighbor_loop obs nbrs wts js (Fin s', Fin w') =
           Inr (Fin (s' + psi_total obs nbrs wts js), Fin (w' + weight_total obs nbrs wts js))"
    for s' w'
    using Cons.IH Cons.prems by simp
  show ?case
  proof (cases "fl_isnan (obs ! nat (nbrs ! j))")
    case True
    then show ?thesis
      using j IH by (simp add: py_get_nat py_get_nonneg psi_total_def weight_total_def
          contributing_def)
  next
    case False
    have "finite_or_nan (obs ! nat (nbrs ! j))"
      using assms(1) nb by (simp add: list_all_length)
    with False obtain v where v: "obs ! nat (nbrs ! j) = Fin v"
      using finite_or_nan_cases by blast
    show ?thesis
      using j IH v x
      by (simp add: py_get_nat py_get_nonneg psi_total_def weight_total_def contributing_def
          algebra_simps)
  qed
qed

lemma weight_total_nonneg:
  assumes "\<forall>j\<in>set js. weight_ok (wts ! j)"
  shows "0 \<le> weight_total obs nbrs wts js"
proof -
  have "0 \<le> the_real (wts ! j)" if "j \<in> set js" for j
    using assms that weight_ok_cases by fastforce
  then show ?thesis
    unfolding weight_total_def contributing_def
    by (intro sum_list_nonneg) auto
qed

lemma row_estimate:
  assumes "list_all finite_or_nan obs" and "row_ok obs nbrs wts"
  shows "\<exists>psi_sum weight_sum.
           neighbor_loop obs nbrs wts [1..<length nbrs] (Fin 0, Fin 0) = Inr (psi_sum, weight_sum)
           \<and> (if fl_gt weight_sum (Fin 0) then fl_div psi_sum weight_sum else NaN)
               = neighborhood_estimate obs nbrs wts"
proof -
  let ?js = "[1..<length nbrs]"
  have js: "\<forall>j\<in>set ?js. j < length nbrs \<and> j < length wts \<and> 0 \<le> nbrs ! j
           \<and> nbrs ! j < int (length obs) \<and> weight_ok (wts ! j)"
    using assms(2) by (auto simp: row_ok_def list_all_iff)
  have "neighbor_loop obs nbrs wts ?js (Fin 0, Fin 0) =
           Inr (Fin (0 + psi_total obs nbrs wts ?js), Fin (0 + weight_total obs nbrs wts ?js))"
    by (rule neighbor_loop_sums [OF assms(1) js])
  then have loop: "neighbor_loop obs nbrs wts ?js (Fin 0, Fin 0) =
           Inr (Fin (psi_total obs nbrs wts ?js), Fin (weight_total obs nbrs wts ?js))"
    by (simp only: add_0)
  have "0 \<le> weight_total obs nbrs wts ?js"
    using js by (intro weight_total_nonneg) simp
  then have est: "(if fl_gt (Fin (weight_total obs nbrs wts ?js)) (Fin 0)
              then fl_div (Fin (psi_total obs nbrs wts ?js)) (Fin (weight_total obs nbrs wts ?js))
              else NaN) = neighborhood_estimate obs nbrs wts"
    by (auto simp: neighborhood_estimate_def fl_gt_def Let_def)
  from loop est show ?thesis by blast
qed

lemma cell_loop_closed:
  assumes "list_all finite_or_nan obs"
    and "\<forall>i\<in>set is. i < length obs \<and> i < length mrna \<and> i < length (fst cm) \<and> i < length (snd cm)
           \<and> (\<not> fl_isnan (obs ! i) \<longrightarrow> row_ok obs (fst cm ! i) (snd cm ! i))"
  shows "cell_loop obs mrna cm is (po, pa, ma) =
           Inr (po @ map ((!) obs) (filter (\<lambda>i. \<not> fl_isnan (obs ! i)) is),
                pa @ map (\<lambda>i. neighborhood_estimate obs (fst cm ! i) (snd cm ! i))
                       (filter (\<lambda>i. \<not> fl_isnan (obs ! i)) is),
                ma @ map ((!) mrna) (filter (\<lambda>i. \<not> fl_isnan (obs ! i)) is))"
  using assms(2)
proof (induction "is" arbitrary: po pa ma)
  case Nil
  then show ?case by simp
next
  case (Cons i "is")
  then have i: "i < length obs" "i < length mrna" "i < length (fst cm)" "i < length (snd cm)"
    by simp_all
  have IH: "cell_loop obs mrna cm is (po', pa', ma') =
           Inr (po' @ map ((!) obs) (filter (\<lambda>i. \<not> fl_isnan (obs ! i)) is),
                pa' @ map (\<lambda>i. neighborhood_estimate obs (fst cm ! i) (snd cm ! i))
                       (filter (\<lambda>i. \<not> fl_isnan (obs ! i)) is),
                ma' @ map ((!) mrna) (filter (\<lambda>i. \<not> fl_isnan (obs ! i)) is))" for po' pa' ma'
    using Cons.IH Cons.prems by simp
  show ?case
  proof (cases "fl_isnan (obs ! i)")
    case True
    then show ?thesis
      using i IH by (simp add: py_get_nat)
  next
    case False
    then have "row_ok obs (fst cm ! i) (snd cm ! i)"
      using Cons.prems by simp
    from row_estimate [OF assms(1) this] obtain psi_sum weight_sum where
      loop: "neighbor_loop obs (fst cm ! i) (snd cm ! i) [1..<length (fst cm ! i)] (Fin 0, Fin 0)
               = Inr (psi_sum, weight_sum)"
      and est: "(if fl_gt weight_sum (Fin 0) then fl_div psi_sum weight_sum else NaN)
               = neighborhood_estimate obs (fst cm ! i) (snd cm ! i)"
      by blast
    show ?thesis
      using i False IH loop est by (simp add: py_get_nat)
  qed
qed

lemma cell_loop_outputs:
  assumes "cell_loop obs mrna cm is (po, pa, ma) = Inr (po', pa', ma')"
    and "\<forall>i\<in>set is. i < length obs"
  shows "po' = po @ map ((!) obs) (filter (\<lambda>i. \<not> fl_isnan (obs ! i)) is)
         \<and> ma' = ma @ map ((!) mrna) (filter (\<lambda>i. \<not> fl_isnan (obs ! i)) is)
         \<and> length pa' = length pa + length (filter (\<lambda>i. \<not> fl_isnan (obs ! i)) is)"
  using assms
proof (induction "is" arbitrary: po pa ma)
  case Nil
  then show ?case by simp
next
  case (Cons i "is")
  then have i: "i < length obs" by simp
  show ?case
  proof (cases "fl_isnan (obs ! i)")
    case True
    then show ?thesis
      using Cons i by (simp add: py_get_nat)
  next
    case False
    from Cons.prems(1) False i obtain nbrs wts ps ws where
      m: "py_get mrna (int i) = Inr (mrna ! i)"
      and rest: "cell_loop obs mrna cm is
              (po @ [obs ! i],
               pa @ [if fl_gt ws (Fin 0) then fl_div ps ws else NaN],
               ma @ [mrna ! i]) = Inr (po', pa', ma')"
      by (auto simp: py_get_nat py_get_def Let_def split: sum.splits if_splits)
    from Cons.IH [OF rest] Cons.prems(2) False show ?thesis
      by simp
  qed
qed

lemma get_arrays_outputs:
  assumes "get_arrays obs mrna cm = Inr (po, pa, m)"
  shows "po = map ((!) obs) (defined_cells obs)
         \<and> m = map (\<lambda>i. collapse_mrna (mrna ! i)) (defined_cells obs)
         \<and> length pa = length (defined_cells obs)"
proof -
  from assms obtain ma where
    loop: "cell_loop obs mrna cm [0..<length obs] ([], [], []) = Inr (po, pa, ma)"
    and m: "m = map collapse_mrna ma"
    by (auto simp: get_arrays_def split: sum.splits)
  from cell_loop_outputs [OF loop] m show ?thesis
    by (simp add: defined_cells_def comp_def)
qed


lemma defined_cells_three: "defined_cells [Fin (1 / 2), NaN, Fin 1] = [0, 2]"
  by code_simp

lemma graph_ok_three:
  "graph_ok [Fin (1 / 2), NaN, Fin 1] [0, 2, 1 / 2]
     ([[0, 1, 2], [1, 0, 2], [2, 1, 1]],
      [[Fin 1, Fin 1, Fin 3], [Fin 1, Fin 1, Fin 1], [Fin 1, Fin 2, Fin 2]])"
  by code_simp

lemma estimates_three:
  "neighborhood_estimate [Fin (1 / 2), NaN, Fin 1] [0, 1, 2] [Fin 1, Fin 1, Fin 3] = Fin 1"
  "neighborhood_estimate [Fin (1 / 2), NaN, Fin 1] [2, 1, 1] [Fin 1, Fin 2, Fin 2] = NaN"
  by code_simp+

lemma collapse_three: "collapse_mrna 0 = 0" "collapse_mrna (1 / 2) = 1"
  by code_simp+

text \<open>
  C4. On a well-formed input \<open>get_arrays\<close> returns one entry per cell with a defined
  observation, in cell order: the cell's own observation, its neighborhood estimate and
  its collapsed molecule estimate. The neighborhood estimate is the weighted average of
  the defined observations among the neighbors at positions 1 onward, normalized by the
  weights of those that contributed, and NaN (the cell being retained all the same) when
  the contributing weights sum to 0.
\<close>

theorem get_arrays_weighted_average:
  assumes "graph_ok obs mrna cm"
  shows "get_arrays obs mrna cm =
           Inr (map ((!) obs) (defined_cells obs),
                map (\<lambda>i. neighborhood_estimate obs (fst cm ! i) (snd cm ! i)) (defined_cells obs),
                map (\<lambda>i. collapse_mrna (mrna ! i)) (defined_cells obs))"
proof -
  have "\<forall>i\<in>set [0..<length obs]. i < length obs \<and> i < length mrna \<and> i < length (fst cm)
           \<and> i < length (snd cm)
           \<and> (\<not> fl_isnan (obs ! i) \<longrightarrow> row_ok obs (fst cm ! i) (snd cm ! i))"
    using assms by (auto simp: graph_ok_def defined_cells_def list_all_iff)
  moreover have "list_all finite_or_nan obs"
    using assms by (simp add: graph_ok_def)
  ultimately show ?thesis
    unfolding get_arrays_def defined_cells_def
    by (simp add: cell_loop_closed comp_def)
qed


theorem get_arrays_weighted_average_witness:
  "graph_ok [Fin (1 / 2), NaN, Fin 1] [0, 2, 1 / 2]
     ([[0, 1, 2], [1, 0, 2], [2, 1, 1]],
      [[Fin 1, Fin 1, Fin 3], [Fin 1, Fin 1, Fin 1], [Fin 1, Fin 2, Fin 2]])
   \<and> get_arrays [Fin (1 / 2), NaN, Fin 1] [0, 2, 1 / 2]
       ([[0, 1, 2], [1, 0, 2], [2, 1, 1]],
        [[Fin 1, Fin 1, Fin 3], [Fin 1, Fin 1, Fin 1], [Fin 1, Fin 2, Fin 2]])
     = Inr ([Fin (1 / 2), Fin 1], [Fin 1, NaN], [0, 1])"
  using get_arrays_weighted_average [OF graph_ok_three] graph_ok_three
  by (simp add: defined_cells_three estimates_three collapse_three)

section \<open>The exon score\<close>


lemma zero_count:
  "length (filter (\<lambda>x. x = 0) (map round_half_even (map (\<lambda>i. collapse_mrna (mrna ! i)) is)))
     = length (filter (\<lambda>i. round_half_even (collapse_mrna (mrna ! i)) = 0) is)"
  by (induction "is") simp_all

lemma score_arrays_average:
  assumes "get_arrays psi mrna cm = Inr (po, pa, m)"
  shows "score_arrays bx psi mrna cm c min_p turbo =
     (if scored_cells_total psi mrna \<le> 0 then Inr NaN
      else (case (if turbo \<noteq> []
                  then psi_observations_scores_vec_turbo po pa (np_nanmean po)
                         (map (cap_mrna (int (length turbo))) (map round_half_even m)) turbo
                  else psi_observations_scores_vec bx po pa (np_nanmean po)
                         (map round_half_even m) c min_p) of
              Inl e \<Rightarrow> Inl e
            | Inr L_vec \<Rightarrow>
                Inr (fl_div (np_sum L_vec) (fl_int (scored_cells_total psi mrna)))))"
proof -
  from get_arrays_outputs [OF assms] have
    po: "length po = length (defined_cells psi)"
    and m: "m = map (\<lambda>i. collapse_mrna (mrna ! i)) (defined_cells psi)"
    by simp_all
  have total: "int (length po) - int (length (filter (\<lambda>x. x = 0) (map round_half_even m)))
                 = scored_cells_total psi mrna"
    unfolding scored_cells_total_def po m zero_count ..
  show ?thesis
    unfolding score_arrays_def assms sum.case prod.case Let_def total
    by (rule refl)
qed












section \<open>Permutation by a seed\<close>








section \<open>The lookup path\<close>

lemma py_get_table:
  assumes "T \<noteq> []" and "0 \<le> r" and "r \<le> int (length T)"
  shows "py_get T (r - 1) = Inr (turbo_table T r)"
proof (cases "r = 0")
  case True
  with assms(1) show ?thesis
    by (cases T rule: rev_cases) (simp_all add: py_get_def turbo_table_def)
next
  case False
  with assms show ?thesis
    by (simp add: py_get_def turbo_table_def)
qed





lemma psix_turbo_zero_is_last:
  assumes "T \<noteq> []"
  shows "psix_turbo psi_o psi_a 0 T = psix_turbo psi_o psi_a (int (length T)) T"
proof -
  have "py_get T (0 - 1) = py_get T (int (length T) - 1)"
    using assms by (cases T) (simp_all add: py_get_def)
  then show ?thesis
    by (simp add: psix_turbo_def Let_def split: sum.splits)
qed

lemma example_tables_length: "example_tables \<noteq> []" "int (length example_tables) = 2"
  by (simp_all add: example_tables_def)

lemma get_arrays_turbo_example:
  "get_arrays [Fin 0, Fin (1 / 25)] [0, 1] ([[0, 1], [1, 0]], [[Fin 1, Fin 1], [Fin 1, Fin 1]])
     = Inr ([Fin 0, Fin (1 / 25)], [Fin (1 / 25), Fin 0], [0, 1])"
  by code_simp

lemma turbo_lookups_example:
  "psix_turbo (Fin 0) (Fin (1 / 25)) 0 example_tables = Inr (Fin (1 / 2))"
  "psix_turbo (Fin 0) (Fin (1 / 50)) 0 example_tables = Inr (Fin 1)"
  "psix_turbo (Fin (1 / 25)) (Fin 0) 1 example_tables = Inr (Fin 1)"
  "psix_turbo (Fin (1 / 25)) (Fin (1 / 50)) 1 example_tables = Inr (Fin 1)"
  by code_simp+

lemma turbo_scores_example:
  "L_score_turbo (Fin 0) (Fin (1 / 25)) (Fin (1 / 50)) 0 example_tables = Inr (Fin (ln (1 / 2)))"
  "L_score_turbo (Fin (1 / 25)) (Fin 0) (Fin (1 / 50)) 1 example_tables = Inr (Fin 0)"
  by (simp_all add: L_score_turbo_def turbo_lookups_example fl_sub_def)

lemma turbo_vec_example:
  "psi_observations_scores_vec_turbo [Fin 0, Fin (1 / 25)] [Fin (1 / 25), Fin 0] (Fin (1 / 50))
     [0, 1] example_tables = Inr [Fin (ln (1 / 2)), Fin 0]"
  unfolding psi_observations_scores_vec_turbo_def
  by (simp add: py_get_def turbo_scores_example upt_conv_Cons)

lemma total_turbo_example: "scored_cells_total [Fin 0, Fin (1 / 25)] [0, 1] = 1"
  by code_simp

lemma rounds_example: "map round_half_even [0, 1] = [0, 1]"
  by code_simp

lemma caps_example: "map (cap_mrna 2) [0, 1] = [0, 1]"
  by code_simp

lemma nanmean_example: "np_nanmean [Fin 0, Fin (1 / 25)] = Fin (1 / 50)"
  by code_simp

lemma score_arrays_turbo_example:
  "score_arrays bx [Fin 0, Fin (1 / 25)] [0, 1]
     ([[0, 1], [1, 0]], [[Fin 1, Fin 1], [Fin 1, Fin 1]]) c min_p example_tables
   = Inr (Fin (ln (1 / 2)))"
  unfolding score_arrays_average [OF get_arrays_turbo_example] total_turbo_example
    rounds_example example_tables_length(2) caps_example nanmean_example turbo_vec_example
  by (simp add: example_tables_length np_sum_def fl_int_def)





text \<open>
  C9. On the lookup path a cell without captured molecules is still scored. The cap
  leaves the count 0 as it is, the table index is \<open>0 - 1 = -1\<close>, which selects the last
  table, the one of the largest molecule count, and the lookups are those of a cell with
  that largest count. In the example the first of two cells has no molecule: it is left
  out of \<open>total_scored_cells = 1\<close> and yet contributes \<open>ln (1/2)\<close>, read from the last
  table, so the exon score is \<open>ln (1/2)\<close> where the other cell scores 0.
\<close>

theorem turbo_zero_molecules_last_table:
  "(T \<noteq> [] \<longrightarrow>
      cap_mrna (int (length T)) 0 = 0
      \<and> py_get T (0 - 1) = Inr (last T)
      \<and> psix_turbo psi_o psi_a 0 T = psix_turbo psi_o psi_a (int (length T)) T)
   \<and> psi_observations_scores_vec_turbo [Fin 0, Fin (1 / 25)] [Fin (1 / 25), Fin 0]
        (Fin (1 / 50)) [0, 1] example_tables = Inr [Fin (ln (1 / 2)), Fin 0]
   \<and> scored_cells_total [Fin 0, Fin (1 / 25)] [0, 1] = 1
   \<and> score_arrays bx [Fin 0, Fin (1 / 25)] [0, 1]
        ([[0, 1], [1, 0]], [[Fin 1, Fin 1], [Fin 1, Fin 1]]) c min_p example_tables
      = Inr (Fin (ln (1 / 2)))
   \<and> ln (1 / 2 :: real) \<noteq> 0"
proof -
  have "cap_mrna (int (length T)) 0 = 0" if "T \<noteq> []"
    using that by (simp add: cap_mrna_def)
  moreover have "py_get T (0 - 1) = Inr (last T)" if "T \<noteq> []"
    using py_get_table [OF that, of 0] by (simp add: turbo_table_def)
  moreover have "ln (1 / 2 :: real) \<noteq> 0"
    by simp
  ultimately show ?thesis
    using psix_turbo_zero_is_last [of T psi_o psi_a]
    by (simp add: turbo_vec_example total_turbo_example score_arrays_turbo_example)
qed

theorem turbo_zero_molecules_last_table_witness:
  "cap_mrna (int (length example_tables)) 0 = 0
   \<and> py_get example_tables (0 - 1) = Inr (last example_tables)
   \<and> psix_turbo (Fin 0) (Fin (1 / 25)) 0 example_tables
       = psix_turbo (Fin 0) (Fin (1 / 25)) (int (length example_tables)) example_tables"
  using turbo_zero_molecules_last_table [of example_tables "Fin 0" "Fin (1 / 25)"]
    example_tables_length(1)
  by blast

end
